theory Spec2Isabelle
  imports Main
begin

section \<open>Go values used by arc-commit\<close>

text \<open>
  A Go \<^verbatim>\<open>string\<close> is a sequence of bytes, here a \<^typ>\<open>string\<close> (a list of 8-bit
  characters). A Go \<^verbatim>\<open>error\<close> is a value; \<^verbatim>\<open>nil\<close> is \<^term>\<open>None\<close>.
\<close>

datatype go_error =
    EOF
    \<comment> \<open>\<^verbatim>\<open>io.EOF\<close>\<close>
  | ExitError int
    \<comment> \<open>\<^verbatim>\<open>*exec.ExitError\<close> with its \<^verbatim>\<open>ExitCode()\<close>\<close>
  | Opaque string
    \<comment> \<open>any other error handed in by a collaborator (process could not start, network, ...)\<close>
  | ErrorfNew string
    \<comment> \<open>\<^verbatim>\<open>fmt.Errorf(msg)\<close> without a wrapped cause\<close>
  | ErrorfWrap string go_error
    \<comment> \<open>\<^verbatim>\<open>fmt.Errorf(msg + ": %w", err)\<close>\<close>
  | CLIError string "string option" "go_error option"
    \<comment> \<open>\<^verbatim>\<open>errors.NewCLIError(msg)\<close> with its optional hint and cause\<close>

definition NewCLIError :: "string \<Rightarrow> go_error" where
  "NewCLIError msg = CLIError msg None None"

fun WithHint :: "go_error \<Rightarrow> string \<Rightarrow> go_error" where
  "WithHint (CLIError msg h c) hint = CLIError msg (Some hint) c"
| "WithHint e hint = e"

fun WithCause :: "go_error \<Rightarrow> go_error \<Rightarrow> go_error" where
  "WithCause (CLIError msg h c) cause = CLIError msg h (Some cause)"
| "WithCause e cause = e"

subsection \<open>\<^verbatim>\<open>strings.TrimSpace\<close> and \<^verbatim>\<open>strings.ToLower\<close>\<close>

definition asciiSpace :: "char \<Rightarrow> bool" where
  "asciiSpace c \<longleftrightarrow>
     c = CHR 0x09 \<or> c = CHR 0x0A \<or> c = CHR 0x0B \<or> c = CHR 0x0C \<or> c = CHR 0x0D \<or> c = CHR 0x20"

definition RuneSelf :: nat where
  "RuneSelf = 0x80"

text \<open>
  The UTF-8 encodings of the runes beyond ASCII for which \<^verbatim>\<open>unicode.IsSpace\<close> holds:
  U+0085, U+00A0, U+1680, U+2000 to U+200A, U+2028, U+2029, U+202F, U+205F, U+3000.
\<close>

definition spaceRunes :: "string list" where
  "spaceRunes =
     [[CHR 0xC2, CHR 0x85], [CHR 0xC2, CHR 0xA0], [CHR 0xE1, CHR 0x9A, CHR 0x80],
      [CHR 0xE2, CHR 0x80, CHR 0x80], [CHR 0xE2, CHR 0x80, CHR 0x81],
      [CHR 0xE2, CHR 0x80, CHR 0x82], [CHR 0xE2, CHR 0x80, CHR 0x83],
      [CHR 0xE2, CHR 0x80, CHR 0x84], [CHR 0xE2, CHR 0x80, CHR 0x85],
      [CHR 0xE2, CHR 0x80, CHR 0x86], [CHR 0xE2, CHR 0x80, CHR 0x87],
      [CHR 0xE2, CHR 0x80, CHR 0x88], [CHR 0xE2, CHR 0x80, CHR 0x89],
      [CHR 0xE2, CHR 0x80, CHR 0x8A], [CHR 0xE2, CHR 0x80, CHR 0xA8],
      [CHR 0xE2, CHR 0x80, CHR 0xA9], [CHR 0xE2, CHR 0x80, CHR 0xAF],
      [CHR 0xE2, CHR 0x81, CHR 0x9F], [CHR 0xE3, CHR 0x80, CHR 0x80]]"

text \<open>
  The width in bytes of the white-space rune a string starts with (ends with), and 0
  when the first (last) rune is not white space.
\<close>

definition spaceWidth :: "string \<Rightarrow> nat" where
  "spaceWidth s =
     (case s of
        [] \<Rightarrow> 0
      | c # _ \<Rightarrow>
          if asciiSpace c then 1
          else (case List.find (\<lambda>p. take (length p) s = p) spaceRunes of
                  None \<Rightarrow> 0
                | Some p \<Rightarrow> length p))"

definition lastSpaceWidth :: "string \<Rightarrow> nat" where
  "lastSpaceWidth s =
     (case rev s of
        [] \<Rightarrow> 0
      | c # _ \<Rightarrow>
          if asciiSpace c then 1
          else (case List.find (\<lambda>p. drop (length s - length p) s = p) spaceRunes of
                  None \<Rightarrow> 0
                | Some p \<Rightarrow> length p))"

lemma spaceWidth_le: "spaceWidth s \<le> length s"
proof (cases s)
  case Nil
  then show ?thesis by (simp add: spaceWidth_def)
next
  case (Cons c cs)
  show ?thesis
  proof (cases "List.find (\<lambda>p. take (length p) s = p) spaceRunes")
    case None
    with Cons show ?thesis by (simp add: spaceWidth_def)
  next
    case (Some p)
    then have "take (length p) s = p"
      by (auto simp: find_Some_iff)
    then have "min (length p) (length s) = length p"
      by (metis length_take min.commute)
    then have "length p \<le> length s"
      by simp
    with Cons Some show ?thesis by (simp add: spaceWidth_def)
  qed
qed

lemma lastSpaceWidth_Nil: "lastSpaceWidth [] = 0"
  by (simp add: lastSpaceWidth_def)

function TrimLeftFunc :: "string \<Rightarrow> string" where
  "TrimLeftFunc s = (if spaceWidth s = 0 then s else TrimLeftFunc (drop (spaceWidth s) s))"
  by pat_completeness auto
termination
proof (relation "measure length")
  show "wf (measure length)" by simp
next
  fix s :: string
  assume "spaceWidth s \<noteq> 0"
  moreover have "spaceWidth s \<le> length s" by (rule spaceWidth_le)
  ultimately show "(drop (spaceWidth s) s, s) \<in> measure length" by simp
qed

function TrimRightFunc :: "string \<Rightarrow> string" where
  "TrimRightFunc s =
     (if lastSpaceWidth s = 0 then s else TrimRightFunc (take (length s - lastSpaceWidth s) s))"
  by pat_completeness auto
termination
proof (relation "measure length")
  show "wf (measure length)" by simp
next
  fix s :: string
  assume w: "lastSpaceWidth s \<noteq> 0"
  then have "s \<noteq> []" using lastSpaceWidth_Nil by auto
  with w show "(take (length s - lastSpaceWidth s) s, s) \<in> measure length" by simp
qed

declare TrimLeftFunc.simps [simp del] TrimRightFunc.simps [simp del]

text \<open>
  \<^verbatim>\<open>strings.TrimSpace\<close>: the first loop skips ASCII white space from the left and hands
  over to \<^verbatim>\<open>TrimFunc(s[start:], unicode.IsSpace)\<close> at the first byte that is not ASCII;
  the second loop does the same from the right with \<^verbatim>\<open>TrimRightFunc\<close>.
\<close>

definition TrimSpace :: "string \<Rightarrow> string" where
  "TrimSpace s =
     (let t = dropWhile asciiSpace s in
      case t of
        [] \<Rightarrow> []
      | c # _ \<Rightarrow>
          if RuneSelf \<le> of_char c then TrimRightFunc (TrimLeftFunc t)
          else
            (let u = dropWhile asciiSpace (rev t) in
             case u of
               [] \<Rightarrow> []
             | d # _ \<Rightarrow> if RuneSelf \<le> of_char d then TrimRightFunc (rev u) else rev u))"

definition lowerASCII :: "char \<Rightarrow> char" where
  "lowerASCII c =
     (if (65::nat) \<le> of_char c \<and> of_char c \<le> (90::nat) then char_of (of_char c + (32::nat))
      else c)"

text \<open>
  \<^verbatim>\<open>strings.ToLower\<close>: a string of ASCII bytes is lowered byte by byte; any other string
  goes through \<^verbatim>\<open>strings.Map(unicode.ToLower, s)\<close>, whose Unicode case tables belong to the
  Go runtime and are taken as the parameter \<open>uni\<close>.
\<close>

definition ToLower :: "(string \<Rightarrow> string) \<Rightarrow> string \<Rightarrow> string" where
  "ToLower uni s =
     (if list_all (\<lambda>c. of_char c < RuneSelf) s then map lowerASCII s else uni s)"

section \<open>internal/prompt: composing the prompt pair\<close>

definition systemPrompt :: string where
  \<open>systemPrompt =
     ''You are an expert developer who writes clear, professional commit messages following conventional commits format.\<newline>''
   @ ''\<newline>''
   @ ''Your task is to generate a commit message based on git diff output. Follow these principles:\<newline>''
   @ ''\<newline>''
   @ ''1. **Format**: Use conventional commits (feat:, fix:, refactor:, docs:, test:, chore:)\<newline>''
   @ ''2. **Subject line**: Concise summary (max 72 chars), imperative mood ("add" not "added")\<newline>''
   @ ''3. **Body**: Explain WHY, not WHAT (the diff shows what changed)\<newline>''
   @ ''4. **Scope**: Add scope when helpful (e.g., "feat(cli):", "fix(database):")\<newline>''
   @ ''5. **Breaking changes**: Use "!" for breaking changes (e.g., "feat!:")\<newline>''
   @ ''\<newline>''
   @ ''Style guidelines:\<newline>''
   @ ''- Clear and professional tone\<newline>''
   @ ''- No unnecessary words or filler\<newline>''
   @ ''- Focus on user impact and intent\<newline>''
   @ ''- Group related changes logically\<newline>''
   @ ''\<newline>''
   @ ''Output ONLY the commit message, no additional commentary.''\<close>

definition CommitMessage :: "string \<Rightarrow> string \<Rightarrow> string \<times> string" where
  "CommitMessage diff feedback =
     (let system = systemPrompt;
          user = ''Generate a conventional commit message for these changes:\<newline>\<newline>'' @ diff;
          user = (if feedback \<noteq> []
                  then user @ ''\<newline>\<newline>User feedback for improvement: '' @ feedback
                  else user)
      in (system, user))"

text \<open>\<^verbatim>\<open>CommitMessageModel\<close>, the default model for commit message generation.\<close>

definition CommitMessageModel :: string where
  "CommitMessageModel = ''claude-haiku-4-5-20251001''"

section \<open>internal/cmd: the commit workflow\<close>

subsection \<open>The outside world\<close>

text \<open>
  Everything the workflow does to the outside world is recorded, in order, as a trace of
  events: bytes written to standard output, processes started (with their arguments and
  the bytes handed to their standard input when the code sets one), calls of the AI
  service, lines read from the terminal, and the temporary file of the editor step.
\<close>

datatype event =
    Stdout string
  | Exec "string list" "string option"
  | NewClient string
  | NewService string
  | ServiceRun string string
  | Read string
  | CreateTemp string
  | WriteString string string
  | ReadFile string
  | Remove string

text \<open>
  What the outside world answers is a parameter of the model. The \<open>k\<close>-th call of
  \<^verbatim>\<open>service.Run\<close> may answer differently from the one before; the terminal is the
  sequence of bytes still to be read, and \<open>stdinEnd\<close> is the error the reader reports
  once they are used up (\<^verbatim>\<open>io.EOF\<close> for a closed stream).
\<close>

record env =
  unicodeToLower :: "string \<Rightarrow> string"
  gitDiffQuiet :: "go_error option"
  gitDiff :: "go_error + string"
  aiNewClient :: "go_error option"
  serviceRun :: "nat \<Rightarrow> string \<Rightarrow> string \<Rightarrow> go_error + string"
  stdin :: string
  stdinEnd :: go_error
  getenvEDITOR :: string
  createTemp :: "go_error + string"
  writeString :: "go_error option"
  editorRun :: "string \<Rightarrow> string \<Rightarrow> go_error option \<times> string"
  readFile :: "go_error option"
  gitCommit :: "string \<Rightarrow> go_error option"

type_synonym outcome = "event list \<times> go_error option"

definition Print :: "string \<Rightarrow> event" where
  "Print s = Stdout s"

definition Println :: "string \<Rightarrow> event" where
  "Println s = Stdout (s @ [CHR 0x0A])"

text \<open>Events that happened before a step, put in front of the step's own.\<close>

definition emit :: "event list \<Rightarrow> event list \<times> 'a \<Rightarrow> event list \<times> 'a" where
  "emit es res = (es @ fst res, snd res)"

text \<open>
  \<^verbatim>\<open>reader.ReadString('\n')\<close> on the unread bytes: the line with its delimiter and no
  error, or, when no delimiter is left, the bytes read so far and the error.
\<close>

definition ReadString :: "go_error \<Rightarrow> string \<Rightarrow> string \<times> go_error option \<times> string" where
  "ReadString atEnd inp =
     (case dropWhile (\<lambda>c. c \<noteq> CHR 0x0A) inp of
        [] \<Rightarrow> (inp, Some atEnd, [])
      | c # rest \<Rightarrow> (takeWhile (\<lambda>c. c \<noteq> CHR 0x0A) inp @ [c], None, rest))"

subsection \<open>The version-control operations, generation and the editor\<close>

definition checkStagedChanges :: "env \<Rightarrow> event list \<times> go_error option" where
  "checkStagedChanges e =
     ([Exec [''git'', ''diff'', ''--staged'', ''--quiet''] None],
      case gitDiffQuiet e of
        Some err \<Rightarrow>
          (case err of
             ExitError code \<Rightarrow>
               if code = 1 then None
               else Some (ErrorfWrap ''failed to check staged changes'' err)
           | _ \<Rightarrow> Some (ErrorfWrap ''failed to check staged changes'' err))
      | None \<Rightarrow> Some (ErrorfNew ''no staged changes''))"

definition getStagedDiff :: "env \<Rightarrow> event list \<times> (go_error + string)" where
  "getStagedDiff e =
     ([Exec [''git'', ''diff'', ''--staged''] None],
      case gitDiff e of
        Inl err \<Rightarrow> Inl (ErrorfWrap ''failed to get diff'' err)
      | Inr output \<Rightarrow> Inr output)"

definition createCommit :: "env \<Rightarrow> string \<Rightarrow> outcome" where
  "createCommit e message =
     ([Exec [''git'', ''commit'', ''-F'', ''-''] (Some message)],
      case gitCommit e message of
        Some err \<Rightarrow> Some (ErrorfWrap ''failed to create commit'' err)
      | None \<Rightarrow> None)"

definition generateCommitMessage ::
  "env \<Rightarrow> nat \<Rightarrow> string \<Rightarrow> string \<Rightarrow> event list \<times> (go_error + string)" where
  "generateCommitMessage e k diff feedback =
     (case CommitMessage diff feedback of
        (system, user) \<Rightarrow>
          ([ServiceRun system user],
           case serviceRun e k system user of
             Inl err \<Rightarrow> Inl (ErrorfWrap ''AI request failed'' err)
           | Inr text \<Rightarrow> Inr (TrimSpace text)))"

text \<open>
  \<^verbatim>\<open>editInEditor\<close>. The deferred \<^verbatim>\<open>os.Remove\<close> runs on every return after the file
  was created, so it is the last event of each of those paths.
\<close>

definition editInEditor :: "env \<Rightarrow> string \<Rightarrow> event list \<times> (go_error + string)" where
  "editInEditor e message =
     (let editor = getenvEDITOR e;
          editor = (if editor = [] then ''vim'' else editor)
      in case createTemp e of
           Inl err \<Rightarrow>
             ([CreateTemp ''arc-commit-*.txt''], Inl (ErrorfWrap ''failed to create temp file'' err))
         | Inr name \<Rightarrow>
             emit [CreateTemp ''arc-commit-*.txt'', WriteString name message]
               (case writeString e of
                  Some err \<Rightarrow> ([Remove name], Inl (ErrorfWrap ''failed to write temp file'' err))
                | None \<Rightarrow>
                    emit [Exec [editor, name] None]
                      (case editorRun e editor message of
                         (Some err, _) \<Rightarrow> ([Remove name], Inl (ErrorfWrap ''editor failed'' err))
                       | (None, content) \<Rightarrow>
                           (case readFile e of
                              Some err \<Rightarrow>
                                ([ReadFile name, Remove name],
                                 Inl (ErrorfWrap ''failed to read edited file'' err))
                            | None \<Rightarrow> ([ReadFile name, Remove name], Inr content)))))"

subsection \<open>The interactive loop\<close>

text \<open>
  The arms of \<^verbatim>\<open>switch choice\<close>: \<^verbatim>\<open>case "y", "yes"\<close> is \<open>Approve\<close>,
  \<^verbatim>\<open>case "n", "no"\<close> is \<open>Regenerate\<close>, \<^verbatim>\<open>case "e", "edit"\<close> is \<open>Edit\<close>,
  \<^verbatim>\<open>case "c", "cancel"\<close> is \<open>Cancel\<close> and \<^verbatim>\<open>default\<close> is \<open>Invalid\<close>.
\<close>

datatype decision = Approve | Regenerate | Edit | Cancel | Invalid

definition switchChoice :: "string \<Rightarrow> decision" where
  "switchChoice choice =
     (if choice = ''y'' \<or> choice = ''yes'' then Approve
      else if choice = ''n'' \<or> choice = ''no'' then Regenerate
      else if choice = ''e'' \<or> choice = ''edit'' then Edit
      else if choice = ''c'' \<or> choice = ''cancel'' then Cancel
      else Invalid)"

text \<open>The line read at the menu, as the loop normalises it before the switch.\<close>

definition parseChoice :: "env \<Rightarrow> string \<Rightarrow> decision" where
  "parseChoice e choice = switchChoice (ToLower (unicodeToLower e) (TrimSpace choice))"

definition display :: "string \<Rightarrow> event list" where
  "display message =
     [Println (''\<newline>'' @ replicate 70 CHR ''=''), Println message, Println (replicate 70 CHR ''='')]"

definition menu :: string where
  "menu = ''\<newline>[y]es, [n]o (regenerate), [e]dit, [c]ancel: ''"

definition askFeedback :: string where
  "askFeedback = ''\<newline>What would you like improved? (or press Enter for generic): ''"

lemma ReadString_rest_le:
  "ReadString atEnd inp = (line, err, rest) \<Longrightarrow> length rest \<le> length inp"
proof -
  assume a: "ReadString atEnd inp = (line, err, rest)"
  have "length (dropWhile (\<lambda>c. c \<noteq> CHR 0x0A) inp) \<le> length inp"
    by (rule length_dropWhile_le)
  with a show ?thesis
    by (auto simp: ReadString_def split: list.splits)
qed

lemma ReadString_rest_less:
  "ReadString atEnd inp = (line, None, rest) \<Longrightarrow> length rest < length inp"
proof -
  assume a: "ReadString atEnd inp = (line, None, rest)"
  have "length (dropWhile (\<lambda>c. c \<noteq> CHR 0x0A) inp) \<le> length inp"
    by (rule length_dropWhile_le)
  with a show ?thesis
    by (auto simp: ReadString_def split: list.splits)
qed

lemma ReadString_twice_less:
  assumes "(line, None, rest) = ReadString atEnd inp"
    and "(line', err, rest') = ReadString atEnd rest"
  shows "length rest' < length inp"
proof -
  have "length rest < length inp"
    using assms(1) by (intro ReadString_rest_less [OF sym])
  moreover have "length rest' \<le> length rest"
    using assms(2) by (intro ReadString_rest_le [OF sym])
  ultimately show ?thesis by simp
qed

text \<open>
  The \<^verbatim>\<open>for\<close> loop of \<^verbatim>\<open>runInteractiveCommit\<close>, from the state it keeps: the diff, the
  current message, the number \<open>k\<close> of generation calls made so far and the unread input.
\<close>

function loop ::
  "env \<Rightarrow> bool \<Rightarrow> bool \<Rightarrow> string \<Rightarrow> string \<Rightarrow> nat \<Rightarrow> string \<Rightarrow> outcome" where
  "loop e autoYes dryRun diff message k inp =
     emit (display message)
       (if dryRun then ([Println ''\<newline>(Dry run - no commit created)''], None)
        else if autoYes then
          emit [Println ''\<newline>Auto-committing...''] (createCommit e message)
        else
          emit [Print menu]
            (case ReadString (stdinEnd e) inp of
               (choice, Some err, rest) \<Rightarrow>
                 ([Read choice], Some (WithCause (NewCLIError ''failed to read input'') err))
             | (choice, None, rest) \<Rightarrow>
                 emit [Read choice]
                   (case parseChoice e choice of
                      Approve \<Rightarrow> createCommit e message
                    | Regenerate \<Rightarrow>
                        (case ReadString (stdinEnd e) rest of
                           (feedback, _, rest') \<Rightarrow>
                             emit [Print askFeedback, Read feedback,
                                   Println ''\<newline>Regenerating...'']
                               (case generateCommitMessage e k diff (TrimSpace feedback) of
                                  (evs, Inl err) \<Rightarrow>
                                    (evs,
                                     Some (WithCause
                                       (NewCLIError ''failed to regenerate message'') err))
                                | (evs, Inr message') \<Rightarrow>
                                    emit evs
                                      (loop e autoYes dryRun diff message' (Suc k) rest')))
                    | Edit \<Rightarrow>
                        (case editInEditor e message of
                           (evs, Inl err) \<Rightarrow>
                             (evs, Some (WithCause (NewCLIError ''failed to open editor'') err))
                         | (evs, Inr edited) \<Rightarrow> emit evs (createCommit e edited))
                    | Cancel \<Rightarrow> ([Println ''\<newline>Commit cancelled.''], None)
                    | Invalid \<Rightarrow>
                        emit [Println ''\<newline>Invalid choice. Please enter y/n/e/c.'']
                          (loop e autoYes dryRun diff message k rest))))"
  by pat_completeness auto
termination
proof (relation "measure (\<lambda>(e, autoYes, dryRun, diff, message, k, inp). length inp)",
    goal_cases)
  case 1
  show ?case by simp
next
  case 2
  then show ?case
    by (auto intro: ReadString_twice_less)
next
  case 3
  then show ?case
    by (auto intro: ReadString_rest_less [OF sym])
qed

declare loop.simps [simp del]

text \<open>\<^verbatim>\<open>runInteractiveCommit\<close>, with \<open>cfgModel\<close> the \<^verbatim>\<open>DefaultModel\<close> of its configuration.\<close>

definition runInteractiveCommit :: "env \<Rightarrow> string \<Rightarrow> bool \<Rightarrow> bool \<Rightarrow> outcome" where
  "runInteractiveCommit e cfgModel autoYes dryRun =
     emit [Println ''Checking for staged changes...'']
       (case checkStagedChanges e of
          (evs, Some err) \<Rightarrow>
            (evs,
             Some (WithHint (NewCLIError ''no staged changes found'')
                     ''Stage changes first: git add <files>''))
        | (evs, None) \<Rightarrow>
            emit (evs @ [Println ''Generating diff...''])
              (case getStagedDiff e of
                 (evs, Inl err) \<Rightarrow> (evs, Some (WithCause (NewCLIError ''failed to get diff'') err))
               | (evs, Inr diff) \<Rightarrow>
                   emit evs
                     (if length diff = 0 then
                        ([], Some (WithHint (NewCLIError ''no changes to commit'')
                                     ''Stage changes first: git add <files>''))
                      else
                        emit [NewClient cfgModel]
                          (case aiNewClient e of
                             Some err \<Rightarrow>
                               ([], Some (WithCause
                                            (NewCLIError ''failed to create AI client'') err))
                           | None \<Rightarrow>
                               emit [NewService
                                       (if cfgModel = [] then CommitMessageModel else cfgModel),
                                     Println ''Generating commit message with AI...'']
                                 (case generateCommitMessage e 0 diff [] of
                                    (evs, Inl err) \<Rightarrow>
                                      (evs,
                                       Some (WithCause
                                         (NewCLIError ''failed to generate commit message'')
                                         err))
                                  | (evs, Inr message) \<Rightarrow>
                                      emit evs
                                        (loop e autoYes dryRun diff message 1 (stdin e)))))))"

text \<open>
  \<^verbatim>\<open>newCommitCmd\<close>'s \<^verbatim>\<open>RunE\<close>: the \<^verbatim>\<open>--model\<close> flag, when given, replaces the configured
  model. \<^verbatim>\<open>main\<close> exits with status 1 when the command returns an error, and with 0
  otherwise.
\<close>

definition runE :: "env \<Rightarrow> string \<Rightarrow> string \<Rightarrow> bool \<Rightarrow> bool \<Rightarrow> outcome" where
  "runE e cfgModel model autoYes dryRun =
     runInteractiveCommit e (if model \<noteq> [] then model else cfgModel) autoYes dryRun"

definition exitCode :: "go_error option \<Rightarrow> int" where
  "exitCode err = (case err of None \<Rightarrow> 0 | Some _ \<Rightarrow> 1)"

section \<open>Notions used to state the properties\<close>

text \<open>
  The one process that writes to the repository, \<^verbatim>\<open>git commit -F -\<close>; the processes a
  session may start at all; and the shape of a trace in which a commit, if there is one,
  is the last event and decides the outcome.
\<close>

fun isCommit :: "event \<Rightarrow> bool" where
  "isCommit (Exec argv input) = (argv = [''git'', ''commit'', ''-F'', ''-''])"
| "isCommit _ = False"

fun knownProcess :: "env \<Rightarrow> event \<Rightarrow> bool" where
  "knownProcess e (Exec argv input) =
     (argv = [''git'', ''diff'', ''--staged'', ''--quiet''] \<or>
      argv = [''git'', ''diff'', ''--staged''] \<or>
      argv = [''git'', ''commit'', ''-F'', ''-''] \<or>
      (case createTemp e of
         Inl err \<Rightarrow> False
       | Inr name \<Rightarrow> argv = [if getenvEDITOR e = [] then ''vim'' else getenvEDITOR e, name]))"
| "knownProcess e ev = True"

definition commitLast :: "env \<Rightarrow> outcome \<Rightarrow> bool" where
  "commitLast e res \<longleftrightarrow>
     filter isCommit (fst res) = [] \<or>
     (\<exists>pre m. fst res = pre @ [Exec [''git'', ''commit'', ''-F'', ''-''] (Some m)]
        \<and> filter isCommit pre = [] \<and> snd res = snd (createCommit e m))"

text \<open>The events of a start that reaches the first message, in order.\<close>

definition startupEvents :: "string \<Rightarrow> string \<Rightarrow> event list" where
  "startupEvents cfgModel diff =
     [Println ''Checking for staged changes...'',
      Exec [''git'', ''diff'', ''--staged'', ''--quiet''] None,
      Println ''Generating diff...'',
      Exec [''git'', ''diff'', ''--staged''] None,
      NewClient cfgModel,
      NewService (if cfgModel = [] then CommitMessageModel else cfgModel),
      Println ''Generating commit message with AI...'',
      ServiceRun systemPrompt (snd (CommitMessage diff []))]"

text \<open>
  A sample world for the examples: changes are staged, every collaborator succeeds, the
  service answers with a message surrounded by white space, and the terminal is closed.
\<close>

definition demoEnv :: env where
  "demoEnv =
     \<lparr>unicodeToLower = (\<lambda>s. s),
      gitDiffQuiet = Some (ExitError 1),
      gitDiff = Inr ''diff --git a/x b/x\<newline>+foo'',
      aiNewClient = None,
      serviceRun = (\<lambda>k system user. Inr '' feat: add foo\<newline>''),
      stdin = [],
      stdinEnd = EOF,
      getenvEDITOR = [],
      createTemp = Inr ''/tmp/arc-commit-1.txt'',
      writeString = None,
      editorRun = (\<lambda>editor message. (None, ''fix: corrected typo'')),
      readFile = None,
      gitCommit = (\<lambda>message. None)\<rparr>"


section \<open>The steps of the loop\<close>

lemma emit_emit: "emit es (emit fs r) = emit (es @ fs) r"
  by (simp add: emit_def)

lemma emit_pair: "emit es (fs, r) = (es @ fs, r)"
  by (simp add: emit_def)

lemma fst_CommitMessage: "fst (CommitMessage diff feedback) = systemPrompt"
  by (simp add: CommitMessage_def Let_def)

lemma generateCommitMessage_eq:
  "generateCommitMessage e k diff feedback =
     ([ServiceRun systemPrompt (snd (CommitMessage diff feedback))],
      case serviceRun e k systemPrompt (snd (CommitMessage diff feedback)) of
        Inl err \<Rightarrow> Inl (ErrorfWrap ''AI request failed'' err)
      | Inr text \<Rightarrow> Inr (TrimSpace text))"
  by (simp add: generateCommitMessage_def CommitMessage_def Let_def)

lemma loop_dryRun:
  "loop e autoYes True diff message k inp =
     (display message @ [Println ''\<newline>(Dry run - no commit created)''], None)"
  by (subst loop.simps) (simp add: emit_def)

lemma loop_autoYes:
  "loop e True False diff message k inp =
     emit (display message @ [Println ''\<newline>Auto-committing...'']) (createCommit e message)"
  by (subst loop.simps) (simp add: emit_def)

lemma loop_read_failed:
  assumes "ReadString (stdinEnd e) inp = (choice, Some err, rest)"
  shows "loop e False False diff message k inp =
     (display message @ [Print menu, Read choice],
      Some (CLIError ''failed to read input'' None (Some err)))"
  using assms by (subst loop.simps) (simp add: emit_def NewCLIError_def)

lemma loop_Approve:
  assumes "ReadString (stdinEnd e) inp = (choice, None, rest)"
    and "parseChoice e choice = Approve"
  shows "loop e False False diff message k inp =
     emit (display message @ [Print menu, Read choice]) (createCommit e message)"
  using assms by (subst loop.simps) (simp add: emit_def)

lemma loop_Cancel:
  assumes "ReadString (stdinEnd e) inp = (choice, None, rest)"
    and "parseChoice e choice = Cancel"
  shows "loop e False False diff message k inp =
     (display message @ [Print menu, Read choice, Println ''\<newline>Commit cancelled.''], None)"
  using assms by (subst loop.simps) (simp add: emit_def)

lemma loop_Invalid:
  assumes "ReadString (stdinEnd e) inp = (choice, None, rest)"
    and "parseChoice e choice = Invalid"
  shows "loop e False False diff message k inp =
     emit (display message @ [Print menu, Read choice,
             Println ''\<newline>Invalid choice. Please enter y/n/e/c.''])
       (loop e False False diff message k rest)"
  using assms by (subst loop.simps) (simp add: emit_def)

lemma loop_Edit:
  assumes "ReadString (stdinEnd e) inp = (choice, None, rest)"
    and "parseChoice e choice = Edit"
  shows "loop e False False diff message k inp =
     emit (display message @ [Print menu, Read choice] @ fst (editInEditor e message))
       (case snd (editInEditor e message) of
          Inl err \<Rightarrow> ([], Some (CLIError ''failed to open editor'' None (Some err)))
        | Inr edited \<Rightarrow> createCommit e edited)"
  using assms
  by (subst loop.simps) (simp add: emit_def NewCLIError_def split: prod.splits sum.splits)

lemma loop_Regenerate:
  assumes "ReadString (stdinEnd e) inp = (choice, None, rest)"
    and "parseChoice e choice = Regenerate"
    and "ReadString (stdinEnd e) rest = (feedback, err, rest')"
  shows "loop e False False diff message k inp =
     emit (display message @ [Print menu, Read choice, Print askFeedback, Read feedback,
             Println ''\<newline>Regenerating...'',
             ServiceRun systemPrompt (snd (CommitMessage diff (TrimSpace feedback)))])
       (case serviceRun e k systemPrompt (snd (CommitMessage diff (TrimSpace feedback))) of
          Inl cause \<Rightarrow>
            ([], Some (CLIError ''failed to regenerate message'' None
                         (Some (ErrorfWrap ''AI request failed'' cause))))
        | Inr text \<Rightarrow> loop e False False diff (TrimSpace text) (Suc k) rest')"
  using assms
  by (subst loop.simps)
    (simp add: emit_def NewCLIError_def generateCommitMessage_eq split: sum.splits)

lemma run_started:
  assumes "gitDiffQuiet e = Some (ExitError 1)" and "gitDiff e = Inr diff" and "diff \<noteq> []"
    and "aiNewClient e = None"
    and "serviceRun e 0 systemPrompt (snd (CommitMessage diff [])) = Inr text"
  shows "runInteractiveCommit e cfgModel autoYes dryRun =
     emit (startupEvents cfgModel diff) (loop e autoYes dryRun diff (TrimSpace text) 1 (stdin e))"
  using assms
  by (simp add: runInteractiveCommit_def checkStagedChanges_def getStagedDiff_def
      generateCommitMessage_eq emit_def startupEvents_def)

lemma run_shape:
  "(\<exists>n d err. runInteractiveCommit e cfgModel autoYes dryRun =
        (take n (startupEvents cfgModel d), Some err))
   \<or> (\<exists>diff reply. gitDiff e = Inr diff \<and> runInteractiveCommit e cfgModel autoYes dryRun =
     emit (startupEvents cfgModel diff) (loop e autoYes dryRun diff (TrimSpace reply) 1 (stdin e)))"
proof -
  let ?run = "runInteractiveCommit e cfgModel autoYes dryRun"
  have "(\<exists>err. ?run = (take 2 (startupEvents cfgModel []), Some err))
    \<or> (\<exists>err. ?run = (take 4 (startupEvents cfgModel []), Some err))
    \<or> (\<exists>err. ?run = (take 5 (startupEvents cfgModel []), Some err))
    \<or> (\<exists>d err. ?run = (take 8 (startupEvents cfgModel d), Some err))
    \<or> (\<exists>diff reply. gitDiff e = Inr diff \<and>
          ?run = emit (startupEvents cfgModel diff)
            (loop e autoYes dryRun diff (TrimSpace reply) 1 (stdin e)))"
    by (auto simp add: runInteractiveCommit_def checkStagedChanges_def getStagedDiff_def
        generateCommitMessage_eq emit_def startupEvents_def
        split: option.splits sum.splits go_error.splits)
  then show ?thesis by blast
qed

lemma commitLast_quiet: "filter isCommit es = [] \<Longrightarrow> commitLast e (es, r)"
  by (simp add: commitLast_def)

lemma commitLast_createCommit: "commitLast e (createCommit e m)"
  by (simp add: commitLast_def createCommit_def)

lemma commitLast_emit:
  assumes "filter isCommit es = []" and "commitLast e res"
  shows "commitLast e (emit es res)"
proof -
  from assms(2) consider
    (none) "filter isCommit (fst res) = []"
  | (last) pre m where "fst res = pre @ [Exec [''git'', ''commit'', ''-F'', ''-''] (Some m)]"
      "filter isCommit pre = []" "snd res = snd (createCommit e m)"
    by (auto simp: commitLast_def)
  then show ?thesis
  proof cases
    case none
    with assms(1) show ?thesis by (simp add: commitLast_def emit_def)
  next
    case last
    with assms(1) have "fst (emit es res) = (es @ pre) @ [Exec [''git'', ''commit'', ''-F'', ''-''] (Some m)]"
      "filter isCommit (es @ pre) = []" "snd (emit es res) = snd (createCommit e m)"
      by (simp_all add: emit_def)
    then show ?thesis unfolding commitLast_def by blast
  qed
qed

lemma loop_invariant:
  fixes P :: "outcome \<Rightarrow> bool" and q :: "event \<Rightarrow> bool"
  assumes emitI: "\<And>es res. list_all q es \<Longrightarrow> P res \<Longrightarrow> P (emit es res)"
    and stopI: "\<And>es r. list_all q es \<Longrightarrow> P (es, r)"
    and commitI: "\<And>m. P (createCommit e m)"
    and q_out: "\<And>s. q (Stdout s)" and q_read: "\<And>s. q (Read s)"
    and q_run: "\<And>a b. q (ServiceRun a b)"
    and q_edit: "\<And>m. list_all q (fst (editInEditor e m))"
  shows "P (loop e autoYes dryRun diff message k inp)"
proof (induction "length inp" arbitrary: inp message k rule: less_induct)
  case less
  have q_display: "list_all q (display message)"
    by (simp add: display_def Println_def q_out)
  show ?case
  proof (cases dryRun)
    case True
    have "P (display message @ [Println ''\<newline>(Dry run - no commit created)''], None)"
      by (intro stopI) (simp add: q_display Println_def q_out)
    with True show ?thesis
      by (simp add: loop_dryRun)
  next
    case notDry: False
    show ?thesis
    proof (cases autoYes)
      case True
      have "P (emit (display message @ [Println ''\<newline>Auto-committing...''])
          (createCommit e message))"
        by (intro emitI commitI) (simp add: q_display Println_def q_out)
      with True notDry show ?thesis
        by (simp add: loop_autoYes)
    next
      case notAuto: False
      obtain choice err rest where rd: "ReadString (stdinEnd e) inp = (choice, err, rest)"
        by (metis prod_cases3)
      have quiet: "list_all q (display message @ [Print menu, Read choice])"
        by (simp add: q_display Print_def q_out q_read)
      show ?thesis
      proof (cases err)
        case (Some c)
        have "P (display message @ [Print menu, Read choice],
            Some (CLIError ''failed to read input'' None (Some c)))"
          by (intro stopI quiet)
        with Some rd notDry notAuto show ?thesis
          by (simp add: loop_read_failed)
      next
        case None
        with rd have rd': "ReadString (stdinEnd e) inp = (choice, None, rest)" by simp
        then have shorter: "length rest < length inp" by (rule ReadString_rest_less)
        show ?thesis
        proof (cases "parseChoice e choice")
          case Approve
          have "P (emit (display message @ [Print menu, Read choice]) (createCommit e message))"
            by (intro emitI quiet commitI)
          with notDry notAuto show ?thesis
            by (simp add: loop_Approve [OF rd' Approve])
        next
          case Regenerate
          obtain feedback err' rest' where
            rf: "ReadString (stdinEnd e) rest = (feedback, err', rest')"
            by (metis prod_cases3)
          then have "length rest' \<le> length rest" by (rule ReadString_rest_le)
          with shorter have "length rest' < length inp" by simp
          then have ih: "\<And>m j. P (loop e autoYes dryRun diff m j rest')"
            by (rule less)
          let ?es = "display message @ [Print menu, Read choice, Print askFeedback,
              Read feedback, Println ''\<newline>Regenerating...'',
              ServiceRun systemPrompt (snd (CommitMessage diff (TrimSpace feedback)))]"
          have es: "list_all q ?es"
            by (simp add: q_display Println_def Print_def q_out q_read q_run)
          show ?thesis
          proof (cases "serviceRun e k systemPrompt (snd (CommitMessage diff (TrimSpace feedback)))")
            case (Inl c)
            have "P (emit ?es ([], Some (CLIError ''failed to regenerate message'' None
                (Some (ErrorfWrap ''AI request failed'' c)))))"
              by (intro emitI es stopI) simp
            with Inl notDry notAuto show ?thesis
              by (simp add: loop_Regenerate [OF rd' Regenerate rf])
          next
            case (Inr reply)
            have "P (emit ?es (loop e autoYes dryRun diff (TrimSpace reply) (Suc k) rest'))"
              by (intro emitI es ih)
            with Inr notDry notAuto show ?thesis
              by (simp add: loop_Regenerate [OF rd' Regenerate rf])
          qed
        next
          case Edit
          let ?es = "display message @ [Print menu, Read choice] @ fst (editInEditor e message)"
          have es: "list_all q ?es"
            by (simp add: q_display Print_def q_out q_read q_edit)
          show ?thesis
          proof (cases "snd (editInEditor e message)")
            case (Inl c)
            have "P (emit ?es ([], Some (CLIError ''failed to open editor'' None (Some c))))"
              by (intro emitI es stopI) simp
            with Inl notDry notAuto show ?thesis
              by (simp add: loop_Edit [OF rd' Edit])
          next
            case (Inr edited)
            have "P (emit ?es (createCommit e edited))"
              by (intro emitI es commitI)
            with Inr notDry notAuto show ?thesis
              by (simp add: loop_Edit [OF rd' Edit])
          qed
        next
          case Cancel
          have "P (display message @ [Print menu, Read choice,
              Println ''\<newline>Commit cancelled.''], None)"
            by (intro stopI) (simp add: q_display Println_def Print_def q_out q_read)
          with rd' notDry notAuto Cancel show ?thesis
            by (simp add: loop_Cancel)
        next
          case Invalid
          let ?es = "display message @ [Print menu, Read choice,
              Println ''\<newline>Invalid choice. Please enter y/n/e/c.'']"
          have es: "list_all q ?es"
            by (simp add: q_display Println_def Print_def q_out q_read)
          from shorter have "P (loop e autoYes dryRun diff message k rest)"
            by (rule less)
          then have "P (emit ?es (loop e autoYes dryRun diff message k rest))"
            by (intro emitI es)
          with notDry notAuto show ?thesis
            by (simp add: loop_Invalid [OF rd' Invalid])
        qed
      qed
    qed
  qed
qed

lemma filter_isCommit_quiet: "list_all (\<lambda>ev. \<not> isCommit ev) es \<Longrightarrow> filter isCommit es = []"
  by (induction es) auto

lemma editInEditor_quiet: "list_all (\<lambda>ev. \<not> isCommit ev) (fst (editInEditor e message))"
  by (simp add: editInEditor_def emit_def Let_def split: sum.splits option.splits prod.splits)

lemma editInEditor_known: "list_all (knownProcess e) (fst (editInEditor e message))"
  by (simp add: editInEditor_def emit_def Let_def split: sum.splits option.splits prod.splits)

lemma loop_commitLast: "commitLast e (loop e autoYes dryRun diff message k inp)"
proof (rule loop_invariant [where q = "\<lambda>ev. \<not> isCommit ev"])
  show "commitLast e (emit es res)" if "list_all (\<lambda>ev. \<not> isCommit ev) es" "commitLast e res"
    for es res
    using that by (intro commitLast_emit filter_isCommit_quiet)
  show "commitLast e (es, r)" if "list_all (\<lambda>ev. \<not> isCommit ev) es" for es r
    using that by (intro commitLast_quiet filter_isCommit_quiet)
  show "commitLast e (createCommit e m)" for m
    by (rule commitLast_createCommit)
  show "list_all (\<lambda>ev. \<not> isCommit ev) (fst (editInEditor e m))" for m
    by (rule editInEditor_quiet)
qed simp_all

lemma loop_known: "list_all (knownProcess e) (fst (loop e autoYes dryRun diff message k inp))"
proof (rule loop_invariant [where q = "knownProcess e"
      and P = "\<lambda>res. list_all (knownProcess e) (fst res)"])
  show "list_all (knownProcess e) (fst (editInEditor e m))" for m
    by (rule editInEditor_known)
qed (simp_all add: emit_def createCommit_def)

lemma startupEvents_quiet: "filter isCommit (startupEvents cfgModel diff) = []"
  by (simp add: startupEvents_def Println_def)

lemma startupEvents_take_quiet: "filter isCommit (take n (startupEvents cfgModel diff)) = []"
  by (metis append_take_drop_id filter_append append_is_Nil_conv startupEvents_quiet)

lemma run_commitLast: "commitLast e (runInteractiveCommit e cfgModel autoYes dryRun)"
  using run_shape [of e cfgModel autoYes dryRun]
  by (auto simp: commitLast_quiet commitLast_emit startupEvents_quiet startupEvents_take_quiet
      loop_commitLast)

lemma list_all_take: "list_all p xs \<Longrightarrow> list_all p (take n xs)"
  by (metis append_take_drop_id list_all_append)

lemma startupEvents_known: "list_all (knownProcess e) (startupEvents cfgModel diff)"
  by (simp add: startupEvents_def Println_def)

lemma run_known:
  "list_all (knownProcess e) (fst (runInteractiveCommit e cfgModel autoYes dryRun))"
  using run_shape [of e cfgModel autoYes dryRun]
  by (auto simp: emit_def startupEvents_known loop_known list_all_take)

lemmas eval_strings =
  parseChoice_def switchChoice_def TrimSpace_def asciiSpace_def RuneSelf_def ToLower_def
  lowerASCII_def char_of_def bit_0 ReadString_def

lemma demo_approve_run:
  "runInteractiveCommit (demoEnv\<lparr>stdin := ''y\<newline>''\<rparr>) [] False False =
     (startupEvents [] ''diff --git a/x b/x\<newline>+foo'' @ display ''feat: add foo''
        @ [Print menu, Read ''y\<newline>'',
           Exec [''git'', ''commit'', ''-F'', ''-''] (Some ''feat: add foo'')],
      None)"
proof -
  let ?e = "demoEnv\<lparr>stdin := ''y\<newline>''\<rparr>"
  have "runInteractiveCommit ?e [] False False =
      emit (startupEvents [] ''diff --git a/x b/x\<newline>+foo'')
        (loop ?e False False ''diff --git a/x b/x\<newline>+foo''
           (TrimSpace '' feat: add foo\<newline>'') 1 (stdin ?e))"
    by (rule run_started) (simp_all add: demoEnv_def)
  moreover have "TrimSpace '' feat: add foo\<newline>'' = ''feat: add foo''"
    by (simp add: eval_strings)
  moreover have "loop ?e False False ''diff --git a/x b/x\<newline>+foo'' ''feat: add foo'' 1
      ''y\<newline>'' =
      emit (display ''feat: add foo'' @ [Print menu, Read ''y\<newline>''])
        (createCommit ?e ''feat: add foo'')"
    by (rule loop_Approve [where rest = "[]"]) (simp_all add: eval_strings)
  ultimately show ?thesis
    by (simp add: emit_def createCommit_def demoEnv_def)
qed


section \<open>Properties\<close>

text \<open>
  Claim C7. For every diff \<open>D\<close> and feedback \<open>F\<close>, the user prompt of
  \<open>CommitMessage D F\<close> is the fixed prefix "Generate a conventional commit message for
  these changes:", a blank line, and \<open>D\<close> verbatim; when \<open>F\<close> is not empty, a block that
  begins (after a blank line) with the marker "User feedback for improvement: " and
  continues with \<open>F\<close> is appended, and when \<open>F\<close> is empty nothing follows \<open>D\<close>.
\<close>

theorem CommitMessage_user_prompt:
  "(F \<noteq> [] \<longrightarrow>
      snd (CommitMessage D F) =
        ''Generate a conventional commit message for these changes:'' @ ''\<newline>\<newline>'' @ D
        @ ''\<newline>\<newline>'' @ ''User feedback for improvement: '' @ F)
   \<and> (F = [] \<longrightarrow>
      snd (CommitMessage D F) =
        ''Generate a conventional commit message for these changes:'' @ ''\<newline>\<newline>'' @ D)"
  by (simp add: CommitMessage_def)

theorem CommitMessage_user_prompt_witness:
  "snd (CommitMessage ''+foo'' ''mention the bugfix'') =
     ''Generate a conventional commit message for these changes:\<newline>\<newline>+foo\<newline>\<newline>User feedback for improvement: mention the bugfix''
   \<and> snd (CommitMessage ''+foo'' []) =
     ''Generate a conventional commit message for these changes:\<newline>\<newline>+foo''"
  using CommitMessage_user_prompt [of "''mention the bugfix''" "''+foo''"]
    CommitMessage_user_prompt [of "[]" "''+foo''"]
  by simp

text \<open>
  Claim C4. \<^verbatim>\<open>checkStagedChanges\<close> maps the exit status of \<^verbatim>\<open>git diff --staged --quiet\<close>
  as follows: exit code 0 (\<^verbatim>\<open>Run\<close> returns no error) yields the answer "no staged changes",
  which the function gives as the error \<^verbatim>\<open>no staged changes\<close>; exit code 1 yields the answer
  "staged changes exist", which it gives as \<^verbatim>\<open>nil\<close>; every other failure of the process is
  returned as the error \<^verbatim>\<open>failed to check staged changes\<close> wrapping the cause, a value
  different from both answers.
\<close>

theorem checkStagedChanges_exit_status:
  "(gitDiffQuiet e = None \<longrightarrow> snd (checkStagedChanges e) = Some (ErrorfNew ''no staged changes''))
   \<and> (gitDiffQuiet e = Some (ExitError 1) \<longrightarrow> snd (checkStagedChanges e) = None)
   \<and> (\<forall>err. gitDiffQuiet e = Some err \<and> err \<noteq> ExitError 1 \<longrightarrow>
        snd (checkStagedChanges e) = Some (ErrorfWrap ''failed to check staged changes'' err))"
  by (auto simp: checkStagedChanges_def split: go_error.splits)

theorem checkStagedChanges_exit_status_witness:
  "snd (checkStagedChanges (demoEnv\<lparr>gitDiffQuiet := None\<rparr>)) = Some (ErrorfNew ''no staged changes'')
   \<and> snd (checkStagedChanges demoEnv) = None
   \<and> snd (checkStagedChanges (demoEnv\<lparr>gitDiffQuiet := Some (ExitError 128)\<rparr>)) =
       Some (ErrorfWrap ''failed to check staged changes'' (ExitError 128))"
  using checkStagedChanges_exit_status [of "demoEnv\<lparr>gitDiffQuiet := None\<rparr>"] checkStagedChanges_exit_status [of demoEnv]
    checkStagedChanges_exit_status [of "demoEnv\<lparr>gitDiffQuiet := Some (ExitError 128)\<rparr>"]
  by (simp add: demoEnv_def)

text \<open>
  Claim C2. In every session \<^verbatim>\<open>git commit\<close> is started at most once; the only processes a
  session starts are the two read-only \<^verbatim>\<open>git diff\<close> calls, the editor and that commit;
  when the commit is started it is the last event of the session and its result is the
  session's result. So a session that ends with an error has either started no commit, or
  its commit itself failed, and a cancelled session has started none.
\<close>

theorem commit_once_and_last:
  assumes "runInteractiveCommit e cfgModel autoYes dryRun = (tr, r)"
  shows "length (filter isCommit tr) \<le> 1
    \<and> list_all (knownProcess e) tr
    \<and> (filter isCommit tr \<noteq> [] \<longrightarrow>
         (\<exists>m. tr = butlast tr @ [Exec [''git'', ''commit'', ''-F'', ''-''] (Some m)]
            \<and> filter isCommit (butlast tr) = [] \<and> r = snd (createCommit e m)))
    \<and> (r \<noteq> None \<and> filter isCommit tr \<noteq> [] \<longrightarrow>
         (\<exists>m cause. last tr = Exec [''git'', ''commit'', ''-F'', ''-''] (Some m)
            \<and> gitCommit e m = Some cause
            \<and> r = Some (ErrorfWrap ''failed to create commit'' cause)))
    \<and> (last tr = Println ''\<newline>Commit cancelled.'' \<longrightarrow> filter isCommit tr = [])"
proof -
  have known: "list_all (knownProcess e) tr"
    using run_known [of e cfgModel autoYes dryRun] assms by simp
  have "commitLast e (tr, r)"
    using run_commitLast [of e cfgModel autoYes dryRun] assms by simp
  then consider
    (none) "filter isCommit tr = []"
  | (last) pre m where "tr = pre @ [Exec [''git'', ''commit'', ''-F'', ''-''] (Some m)]"
      "filter isCommit pre = []" "r = snd (createCommit e m)"
    by (auto simp: commitLast_def)
  then show ?thesis
  proof cases
    case none
    with known show ?thesis by simp
  next
    case last
    then have bl: "butlast tr = pre"
      and la: "last tr = Exec [''git'', ''commit'', ''-F'', ''-''] (Some m)"
      by simp_all
    have one: "filter isCommit tr = [Exec [''git'', ''commit'', ''-F'', ''-''] (Some m)]"
      using last by simp
    have err: "r \<noteq> None \<longrightarrow> (\<exists>cause. gitCommit e m = Some cause
        \<and> r = Some (ErrorfWrap ''failed to create commit'' cause))"
      using last(3) by (simp add: createCommit_def split: option.splits)
    have "tr = butlast tr @ [Exec [''git'', ''commit'', ''-F'', ''-''] (Some m)]"
      using last(1) bl by simp
    with known one la bl last(2,3) err show ?thesis
      by (auto simp: Println_def)
  qed
qed

theorem commit_once_and_last_witness:
  "runInteractiveCommit (demoEnv\<lparr>stdin := ''y\<newline>''\<rparr>) [] False False =
     (startupEvents [] ''diff --git a/x b/x\<newline>+foo'' @ display ''feat: add foo''
        @ [Print menu, Read ''y\<newline>'',
           Exec [''git'', ''commit'', ''-F'', ''-''] (Some ''feat: add foo'')],
      None)
   \<and> length (filter isCommit
        (startupEvents [] ''diff --git a/x b/x\<newline>+foo'' @ display ''feat: add foo''
          @ [Print menu, Read ''y\<newline>'',
             Exec [''git'', ''commit'', ''-F'', ''-''] (Some ''feat: add foo'')])) \<le> 1
   \<and> filter isCommit
        (startupEvents [] ''diff --git a/x b/x\<newline>+foo'' @ display ''feat: add foo''
          @ [Print menu, Read ''y\<newline>'',
             Exec [''git'', ''commit'', ''-F'', ''-''] (Some ''feat: add foo'')]) \<noteq> []"
  using commit_once_and_last [OF demo_approve_run] demo_approve_run
  by (simp add: startupEvents_def display_def Println_def Print_def)

end
